theory Spec2Isabelle
  imports Complex_Main "HOL-Library.AList"
begin

section \<open>Data model of \<^verbatim>\<open>coverage.py\<close>\<close>

text \<open>
  The analysis reads dbt manifest objects. Only the attributes that \<^verbatim>\<open>coverage.py\<close>
  touches are modelled. An attribute that the code probes with \<^verbatim>\<open>hasattr\<close> or
  \<^verbatim>\<open>getattr(..., default)\<close> is an \<open>option\<close>: \<open>None\<close> stands for "absent or Python None".
  Python dictionaries are association lists in insertion order; a lookup is \<open>map_of\<close>,
  an assignment \<^verbatim>\<open>d[k] = v\<close> is \<open>AList.update\<close> (an existing key keeps its position, a
  new key goes to the end), and an in-place change of the object stored under a key
  is \<open>AList.map_entry\<close>. Python integers are \<open>int\<close>, Python floats are idealised as
  \<open>real\<close>.
\<close>

record contract_obj =
  enforced :: "bool option"  \<comment> \<open>\<^verbatim>\<open>getattr(node.contract, "enforced", False)\<close>\<close>

text \<open>
  The values of \<^verbatim>\<open>test_metadata.kwargs\<close> are strings here. A run of the real code in which
  the \<^verbatim>\<open>"column"\<close> value is not hashable ends in a \<^verbatim>\<open>TypeError\<close> at the membership test
  of \<^verbatim>\<open>_analyze_column_tests\<close> and returns nothing. This model has no such run: what it
  computes for a loaded manifest is the result of the runs that return.
\<close>

record test_metadata_obj =
  kwargs :: "(string \<times> string) list"

record node =
  name :: string
  resource_type :: string
  package_name :: string
  original_file_path :: string
  tags :: "string list"  \<comment> \<open>\<^verbatim>\<open>getattr(node, "tags", [])\<close>\<close>
  materialized :: "string option"  \<comment> \<open>\<^verbatim>\<open>node.config.get("materialized")\<close>\<close>
  columns :: "string list option"  \<comment> \<open>the keys of \<^verbatim>\<open>node.columns\<close>, when the attribute exists\<close>
  contract :: "contract_obj option"
  depends_on :: "string list"  \<comment> \<open>\<^verbatim>\<open>node.depends_on.nodes\<close>\<close>
  column_name :: "string option"
  test_metadata :: "test_metadata_obj option"

record unit_test =
  model :: string
  ut_package_name :: string  \<comment> \<open>\<^verbatim>\<open>test.package_name\<close>\<close>

record manifest =
  nodes :: "(string \<times> node) list"
  unit_tests :: "(string \<times> unit_test) list"

text \<open>
  The arguments \<^verbatim>\<open>model_names, model_paths, has_tags, any_tag, exclude_tags, test_type\<close>
  travel together through \<^verbatim>\<open>analyze_unit_tests_and_contracts\<close> and \<^verbatim>\<open>_passes_filters\<close>;
  they are bundled in one record.
\<close>

record filter_spec =
  model_names :: "string list"
  model_paths :: "string list"
  has_tags :: "string list"
  any_tag :: bool
  exclude_tags :: "string list"
  test_type :: string

text \<open>
  One value of \<^verbatim>\<open>model_details\<close>. The keys \<^verbatim>\<open>"unit_tests"\<close> and \<^verbatim>\<open>"columns"\<close> are the
  fields \<open>detail_unit_tests\<close> and \<open>detail_columns\<close>.
\<close>

record model_detail =
  path :: string
  detail_unit_tests :: int
  has_contract :: bool
  contract_enforced :: bool
  contract_issues :: "string list"
  detail_columns :: "string list"
  columns_test :: "(string \<times> bool) list"
  total_columns :: int
  tested_columns :: int
  coverage_pct :: real
  unit_test_pct :: real

type_synonym model_details = "(string \<times> model_detail) list"

record unit_test_stats =
  total_models :: int
  models_with_unit_tests :: int

record contract_issue =
  issue_model :: string  \<comment> \<open>key \<^verbatim>\<open>"model"\<close>\<close>
  issues :: "string list"

record contract_stats =
  with_contracts :: int
  without_contracts :: int
  stats_contract_issues :: "contract_issue list"  \<comment> \<open>\<^verbatim>\<open>contract_stats["contract_issues"]\<close>\<close>

datatype error =
  ManifestNotFoundError string
  | InvalidManifestError string
  | UncaughtException string
  | ZeroDivisionError

text \<open>
  What \<^verbatim>\<open>open\<close>, \<^verbatim>\<open>json.load\<close> and \<^verbatim>\<open>Manifest.from_dict\<close> do with an existing path:
  they raise \<^verbatim>\<open>json.JSONDecodeError\<close>, \<^verbatim>\<open>DbtRuntimeError\<close> or some other exception,
  or they yield a manifest. The file system is not changed during one analysis.
\<close>

datatype read_result =
  JSONDecodeError string
  | DbtRuntimeError string
  | OtherException string
  | Loaded manifest

record filesystem =
  path_exists :: "string \<Rightarrow> bool"
  read_manifest :: "string \<Rightarrow> read_result"






section \<open>\<^verbatim>\<open>_load_manifest\<close>\<close>

definition load_manifest :: "filesystem \<Rightarrow> string \<Rightarrow> error + manifest" where
  "load_manifest fs manifest_path =
     (if \<not> path_exists fs manifest_path
      then Inl (ManifestNotFoundError (''Manifest not found: '' @ manifest_path))
      else (case read_manifest fs manifest_path of
              JSONDecodeError e \<Rightarrow> Inl (InvalidManifestError (''Invalid JSON in manifest: '' @ e))
            | DbtRuntimeError e \<Rightarrow> Inl (InvalidManifestError (''Failed to parse manifest: '' @ e))
            | OtherException e \<Rightarrow> Inl (UncaughtException e)
            | Loaded m \<Rightarrow> Inr m))"

section \<open>\<^verbatim>\<open>_passes_filters\<close>\<close>

text \<open>
  \<^verbatim>\<open>fnmatch\<close> is Python's library function; it is a parameter \<open>fnmatch name pattern\<close>
  of the model. A sequence is true in a condition iff it is not empty.
\<close>

definition passes_filters :: "(string \<Rightarrow> string \<Rightarrow> bool) \<Rightarrow> node \<Rightarrow> filter_spec \<Rightarrow> bool" where
  "passes_filters fnmatch nd spec =
     (if model_names spec \<noteq> [] \<and> \<not> list_ex (fnmatch (name nd)) (model_names spec) then False
      else if model_paths spec \<noteq> []
              \<and> \<not> list_ex (fnmatch (original_file_path nd)) (model_paths spec) then False
      else if has_tags spec \<noteq> [] \<and> any_tag spec
              \<and> set (has_tags spec) \<inter> set (tags nd) = {} then False
      else if has_tags spec \<noteq> [] \<and> \<not> any_tag spec
              \<and> \<not> set (has_tags spec) \<subseteq> set (tags nd) then False
      else if exclude_tags spec \<noteq> [] \<and> set (exclude_tags spec) \<inter> set (tags nd) \<noteq> {} then False
      else if resource_type nd = ''test'' \<and> test_type spec \<noteq> ''all'' then
        (let is_generic_test = (test_metadata nd \<noteq> None) in
         if test_type spec = ''singular'' \<and> is_generic_test then False
         else if test_type spec = ''generic'' \<and> \<not> is_generic_test then False
         else True)
      else True)"

section \<open>First pass of \<^verbatim>\<open>analyze_unit_tests_and_contracts\<close>\<close>

definition node_columns :: "node \<Rightarrow> string list" where
  "node_columns nd = (case columns nd of Some cs \<Rightarrow> cs | None \<Rightarrow> [])"

definition model_unit_tests :: "manifest \<Rightarrow> string \<Rightarrow> node \<Rightarrow> unit_test list" where
  "model_unit_tests mf pkg nd =
     filter (\<lambda>t. model t = name nd \<and> ut_package_name t = pkg) (map snd (unit_tests mf))"

definition node_has_contract :: "node \<Rightarrow> bool" where
  "node_has_contract nd = (contract nd \<noteq> None)"

definition node_contract_enforced :: "node \<Rightarrow> bool" where
  "node_contract_enforced nd =
     (case contract nd of
        None \<Rightarrow> False
      | Some c \<Rightarrow> (case enforced c of None \<Rightarrow> False | Some b \<Rightarrow> b))"

definition node_contract_issues :: "node \<Rightarrow> string list" where
  "node_contract_issues nd =
     (if node_has_contract nd \<and> \<not> node_contract_enforced nd
      then [''Contract not enforced''] else [])"

text \<open>The dictionary comprehension \<^verbatim>\<open>{col: False for col in columns}\<close>.\<close>

definition untested_columns :: "string list \<Rightarrow> (string \<times> bool) list" where
  "untested_columns cols = fold (\<lambda>col d. AList.update col False d) cols []"

text \<open>The dictionary literal stored under \<^verbatim>\<open>model_details[node.name]\<close>.\<close>

definition new_model_detail :: "manifest \<Rightarrow> string \<Rightarrow> node \<Rightarrow> model_detail" where
  "new_model_detail mf pkg nd =
     \<lparr> path = original_file_path nd,
       detail_unit_tests = int (length (model_unit_tests mf pkg nd)),
       has_contract = node_contract_enforced nd,
       contract_enforced = node_contract_enforced nd,
       contract_issues = node_contract_issues nd,
       detail_columns = node_columns nd,
       columns_test = untested_columns (node_columns nd),
       total_columns = int (length (node_columns nd)),
       tested_columns = 0,
       coverage_pct = 0,
       unit_test_pct = (if model_unit_tests mf pkg nd \<noteq> [] then 100 else 0) \<rparr>"

definition is_package_model :: "string \<Rightarrow> node \<Rightarrow> bool" where
  "is_package_model pkg nd \<longleftrightarrow>
     resource_type nd = ''model'' \<and> package_name nd = pkg
     \<and> materialized nd \<noteq> Some ''ephemeral''"

text \<open>The body of the loop over \<^verbatim>\<open>filtered_nodes\<close>, on the three accumulators.\<close>

definition record_model ::
  "manifest \<Rightarrow> string \<Rightarrow> node \<Rightarrow>
   unit_test_stats \<times> contract_stats \<times> model_details \<Rightarrow>
   unit_test_stats \<times> contract_stats \<times> model_details" where
  "record_model mf pkg nd acc =
     (case acc of (us, cs, md) \<Rightarrow>
      if is_package_model pkg nd then
        (let md' = AList.update (name nd) (new_model_detail mf pkg nd) md;
             us1 = us\<lparr>total_models := total_models us + 1\<rparr>;
             us' = (if model_unit_tests mf pkg nd \<noteq> []
                    then us1\<lparr>models_with_unit_tests := models_with_unit_tests us1 + 1\<rparr>
                    else us1);
             cs' = (if node_contract_enforced nd then
                      (let cs1 = cs\<lparr>with_contracts := with_contracts cs + 1\<rparr> in
                       if node_contract_issues nd \<noteq> []
                       then cs1\<lparr>stats_contract_issues := stats_contract_issues cs1
                              @ [\<lparr>issue_model = name nd, issues = node_contract_issues nd\<rparr>]\<rparr>
                       else cs1)
                    else cs\<lparr>without_contracts := without_contracts cs + 1\<rparr>)
         in (us', cs', md'))
      else acc)"

definition initial_stats :: "unit_test_stats \<times> contract_stats \<times> model_details" where
  "initial_stats =
     (\<lparr>total_models = 0, models_with_unit_tests = 0\<rparr>,
      \<lparr>with_contracts = 0, without_contracts = 0, stats_contract_issues = []\<rparr>,
      [])"

section \<open>\<^verbatim>\<open>_analyze_column_tests\<close>\<close>

text \<open>
  The column a test node points at: its \<^verbatim>\<open>column_name\<close> when that is a non-empty
  string, otherwise the \<^verbatim>\<open>"column"\<close> entry of its \<^verbatim>\<open>test_metadata.kwargs\<close>.
\<close>

definition test_column :: "node \<Rightarrow> string option" where
  "test_column test_node =
     (if column_name test_node \<noteq> None \<and> column_name test_node \<noteq> Some []
      then column_name test_node
      else (case test_metadata test_node of
              None \<Rightarrow> None
            | Some tm \<Rightarrow> map_of (kwargs tm) ''column''))"

text \<open>\<^verbatim>\<open>model_details[name]["columns_test"][col] = True\<close>.\<close>

definition set_tested :: "string \<Rightarrow> string \<Rightarrow> model_details \<Rightarrow> model_details" where
  "set_tested nm col md =
     AList.map_entry nm
       (\<lambda>d. d\<lparr>columns_test := AList.update col True (columns_test d)\<rparr>) md"

text \<open>The body of the loop over \<^verbatim>\<open>test_node.depends_on.nodes\<close>.\<close>

definition mark_dependency ::
  "manifest \<Rightarrow> node \<Rightarrow> string \<Rightarrow> model_details \<Rightarrow> model_details" where
  "mark_dependency mf test_node model_id md =
     (case map_of (nodes mf) model_id of
        None \<Rightarrow> md
      | Some model_node \<Rightarrow>
          (case map_of md (name model_node) of
             None \<Rightarrow> md
           | Some d \<Rightarrow>
               (case test_column test_node of
                  None \<Rightarrow> md
                | Some col \<Rightarrow>
                    if col \<in> fst ` set (columns_test d)
                    then set_tested (name model_node) col md
                    else md)))"

definition analyze_column_tests :: "manifest \<Rightarrow> model_details \<Rightarrow> model_details" where
  "analyze_column_tests mf md =
     fold (\<lambda>test_node md'.
             if resource_type test_node = ''test''
             then fold (mark_dependency mf test_node) (depends_on test_node) md'
             else md')
          (map snd (nodes mf)) md"

section \<open>\<^verbatim>\<open>_calculate_coverage_stats\<close>\<close>

text \<open>
  Python's \<^verbatim>\<open>/\<close> raises \<^verbatim>\<open>ZeroDivisionError\<close> on a zero divisor. The accumulator
  \<^verbatim>\<open>column_stats\<close> is local to the analysis and never returned; it is left out.
\<close>

definition py_truediv :: "int \<Rightarrow> int \<Rightarrow> error + real" where
  "py_truediv a b = (if b = 0 then Inl ZeroDivisionError else Inr (real_of_int a / real_of_int b))"

definition count_tested :: "(string \<times> bool) list \<Rightarrow> int" where
  "count_tested ct = int (length (filter snd ct))"

definition update_coverage :: "model_detail \<Rightarrow> error + model_detail" where
  "update_coverage d =
     (let d1 = d\<lparr>tested_columns := count_tested (columns_test d)\<rparr> in
      if total_columns d1 > 0 then
        (case py_truediv (tested_columns d1) (total_columns d1) of
           Inl e \<Rightarrow> Inl e
         | Inr q \<Rightarrow> Inr (d1\<lparr>coverage_pct := q * 100\<rparr>))
      else Inr (d1\<lparr>coverage_pct := 0\<rparr>))"

fun calculate_coverage_stats :: "model_details \<Rightarrow> error + model_details" where
  "calculate_coverage_stats [] = Inr []"
| "calculate_coverage_stats ((nm, d) # rest) =
     (case update_coverage d of
        Inl e \<Rightarrow> Inl e
      | Inr d' \<Rightarrow>
          (case calculate_coverage_stats rest of
             Inl e \<Rightarrow> Inl e
           | Inr rest' \<Rightarrow> Inr ((nm, d') # rest')))"

section \<open>\<^verbatim>\<open>analyze_unit_tests_and_contracts\<close>\<close>

text \<open>
  The manifest is loaded, its nodes are filtered, the manifest is loaded again, and the
  two passes and the coverage computation run on the second copy. The progress bar is
  display only.
\<close>

definition analyze_unit_tests_and_contracts ::
  "(string \<Rightarrow> string \<Rightarrow> bool) \<Rightarrow> filesystem \<Rightarrow> string \<Rightarrow> string \<Rightarrow> filter_spec \<Rightarrow>
   error + (unit_test_stats \<times> contract_stats \<times> model_details)" where
  "analyze_unit_tests_and_contracts fnmatch fs manifest_path pkg spec =
     (case load_manifest fs manifest_path of
        Inl e \<Rightarrow> Inl e
      | Inr mf0 \<Rightarrow>
          (let filtered_nodes =
                 filter (\<lambda>nd. passes_filters fnmatch nd spec) (map snd (nodes mf0)) in
           case load_manifest fs manifest_path of
             Inl e \<Rightarrow> Inl e
           | Inr mf \<Rightarrow>
               (case fold (record_model mf pkg) filtered_nodes initial_stats of
                  (us, cs, md) \<Rightarrow>
                    (case calculate_coverage_stats (analyze_column_tests mf md) of
                       Inl e \<Rightarrow> Inl e
                     | Inr md' \<Rightarrow> Inr (us, cs, md')))))"

section \<open>Example inputs\<close>

text \<open>
  The scenario of the specification: package \<^verbatim>\<open>jaffle_shop\<close> with one model \<^verbatim>\<open>orders\<close>
  (columns \<^verbatim>\<open>id\<close> and \<^verbatim>\<open>status\<close>, materialized as a table, tags \<^verbatim>\<open>a\<close>, \<^verbatim>\<open>b\<close>, \<^verbatim>\<open>c\<close>, a contract
  that is not enforced), one unit test for it, and one generic test on column \<^verbatim>\<open>id\<close>.
\<close>

definition orders_node :: node where
  "orders_node =
     \<lparr> name = ''orders'', resource_type = ''model'', package_name = ''jaffle_shop'',
       original_file_path = ''models/orders.sql'', tags = [''a'', ''b'', ''c''],
       materialized = Some ''table'', columns = Some [''id'', ''status''],
       contract = Some \<lparr>enforced = Some False\<rparr>, depends_on = [],
       column_name = None, test_metadata = None \<rparr>"

definition not_null_id_test :: node where
  "not_null_id_test =
     \<lparr> name = ''not_null_orders_id'', resource_type = ''test'', package_name = ''jaffle_shop'',
       original_file_path = ''models/schema.yml'', tags = [],
       materialized = Some ''test'', columns = Some [],
       contract = None, depends_on = [''model.jaffle_shop.orders''],
       column_name = Some ''id'',
       test_metadata = Some \<lparr>kwargs = [(''column_name'', ''id'')]\<rparr> \<rparr>"

definition jaffle_manifest :: manifest where
  "jaffle_manifest =
     \<lparr> nodes = [(''model.jaffle_shop.orders'', orders_node),
                (''test.jaffle_shop.not_null_orders_id'', not_null_id_test)],
       unit_tests = [(''unit_test.jaffle_shop.orders.t1'',
                      \<lparr>model = ''orders'', ut_package_name = ''jaffle_shop''\<rparr>)] \<rparr>"

definition jaffle_fs :: filesystem where
  "jaffle_fs = \<lparr> path_exists = (\<lambda>p. p = ''target/manifest.json''),
                 read_manifest = (\<lambda>p. Loaded jaffle_manifest) \<rparr>"

definition no_filter :: filter_spec where
  "no_filter = \<lparr> model_names = [], model_paths = [], has_tags = [], any_tag = False,
                 exclude_tags = [], test_type = ''all'' \<rparr>"

definition all_a_b :: filter_spec where
  "all_a_b = no_filter\<lparr>has_tags := [''a'', ''b'']\<rparr>"

definition all_a_b_not_c :: filter_spec where
  "all_a_b_not_c = no_filter\<lparr>has_tags := [''a'', ''b''], exclude_tags := [''c'']\<rparr>"

definition any_x_a :: filter_spec where
  "any_x_a = no_filter\<lparr>has_tags := [''x'', ''a''], any_tag := True\<rparr>"

definition all_x_a :: filter_spec where
  "all_x_a = no_filter\<lparr>has_tags := [''x'', ''a'']\<rparr>"

section \<open>Auxiliary notions for the proofs\<close>

text \<open>
  The cross-reference pass as a list of marks: \<open>column_signals\<close> lists, in the order of
  the two nested loops, the pairs (model name, column) that the test nodes of a manifest
  point at, and \<open>mark\<close> sets one such pair to tested where the pair exists.
\<close>

definition mark :: "string \<times> string \<Rightarrow> model_details \<Rightarrow> model_details" where
  "mark p md =
     AList.map_entry (fst p)
       (\<lambda>d. d\<lparr>columns_test := AList.map_entry (snd p) (\<lambda>_. True) (columns_test d)\<rparr>) md"

definition dependency_signal :: "manifest \<Rightarrow> node \<Rightarrow> string \<Rightarrow> (string \<times> string) list" where
  "dependency_signal mf test_node model_id =
     (case map_of (nodes mf) model_id of
        None \<Rightarrow> []
      | Some model_node \<Rightarrow>
          (case test_column test_node of None \<Rightarrow> [] | Some col \<Rightarrow> [(name model_node, col)]))"

definition column_signals :: "manifest \<Rightarrow> (string \<times> string) list" where
  "column_signals mf =
     concat (map (\<lambda>test_node.
                    if resource_type test_node = ''test''
                    then concat (map (dependency_signal mf test_node) (depends_on test_node))
                    else [])
                 (map snd (nodes mf)))"

definition is_tested :: "model_details \<Rightarrow> string \<Rightarrow> string \<Rightarrow> bool" where
  "is_tested md nm col =
     (case map_of md nm of None \<Rightarrow> False | Some d \<Rightarrow> map_of (columns_test d) col = Some True)"

definition has_column :: "model_details \<Rightarrow> string \<Rightarrow> string \<Rightarrow> bool" where
  "has_column md nm col =
     (case map_of md nm of None \<Rightarrow> False | Some d \<Rightarrow> col \<in> fst ` set (columns_test d))"



text \<open>
  \<open>is_tested\<close> and \<open>has_column\<close> read one entry of the nested dictionaries.
  \<open>same_frame d d'\<close>: the two details differ at most in the booleans of \<^verbatim>\<open>columns_test\<close>.
\<close>

definition same_frame :: "model_detail \<Rightarrow> model_detail \<Rightarrow> bool" where
  "same_frame d d' \<longleftrightarrow>
     map fst (columns_test d') = map fst (columns_test d)
     \<and> d'\<lparr>columns_test := columns_test d\<rparr> = d"

definition same_frames :: "model_details \<Rightarrow> model_details \<Rightarrow> bool" where
  "same_frames md md' = list_all2 (\<lambda>p q. fst q = fst p \<and> same_frame (snd p) (snd q)) md md'"

text \<open>What \<open>update_coverage\<close> computes, as a function that cannot fail.\<close>

definition with_coverage :: "model_detail \<Rightarrow> model_detail" where
  "with_coverage d =
     d\<lparr> tested_columns := count_tested (columns_test d),
        coverage_pct :=
          (if total_columns d > 0
           then real_of_int (count_tested (columns_test d)) / real_of_int (total_columns d) * 100
           else 0) \<rparr>"

text \<open>
  Further example inputs: a filter that no test node passes, a \<^verbatim>\<open>model_details\<close> in which
  column \<^verbatim>\<open>status\<close> is already marked, the detail the analysis returns for \<^verbatim>\<open>orders\<close>,
  the same project with an ephemeral model \<^verbatim>\<open>stg_orders\<close> in front, and a disk with a
  manifest, a file that is not JSON, two JSON files that fail the manifest schema (one
  reported by \<^verbatim>\<open>DbtRuntimeError\<close>, one by another exception) and a directory.
\<close>

definition only_orders_singular :: filter_spec where
  "only_orders_singular = no_filter\<lparr>model_names := [''orders''], test_type := ''singular''\<rparr>"

definition status_known :: model_details where
  "status_known =
     [(''orders'',
       \<lparr> path = ''models/orders.sql'', detail_unit_tests = 1, has_contract = False,
         contract_enforced = False, contract_issues = [''Contract not enforced''],
         detail_columns = [''id'', ''status''],
         columns_test = [(''id'', False), (''status'', True)],
         total_columns = 2, tested_columns = 0, coverage_pct = 0, unit_test_pct = 100 \<rparr>)]"

definition orders_detail :: model_detail where
  "orders_detail =
     \<lparr> path = ''models/orders.sql'', detail_unit_tests = 1, has_contract = False,
       contract_enforced = False, contract_issues = [''Contract not enforced''],
       detail_columns = [''id'', ''status''],
       columns_test = [(''id'', True), (''status'', False)],
       total_columns = 2, tested_columns = 1, coverage_pct = 50, unit_test_pct = 100 \<rparr>"

definition stg_orders_node :: node where
  "stg_orders_node =
     orders_node\<lparr> name := ''stg_orders'', original_file_path := ''models/stg_orders.sql'',
                  materialized := Some ''ephemeral'', contract := None \<rparr>"

definition staged_manifest :: manifest where
  "staged_manifest =
     jaffle_manifest\<lparr> nodes := (''model.jaffle_shop.stg_orders'', stg_orders_node)
                                 # nodes jaffle_manifest \<rparr>"

definition staged_fs :: filesystem where
  "staged_fs = \<lparr> path_exists = (\<lambda>p. p = ''target/manifest.json''),
                 read_manifest = (\<lambda>p. Loaded staged_manifest) \<rparr>"


section \<open>Association lists and marks\<close>

lemma map_entry_absent: "k \<notin> fst ` set xs \<Longrightarrow> AList.map_entry k f xs = xs"
  by (induction xs) auto

lemma map_entry_cong_first:
  "map_of xs k = Some v \<Longrightarrow> f v = g v \<Longrightarrow> AList.map_entry k f xs = AList.map_entry k g xs"
  by (induction xs) (auto split: if_splits)

lemma map_entry_fixed: "map_of xs k = Some v \<Longrightarrow> f v = v \<Longrightarrow> AList.map_entry k f xs = xs"
  by (induction xs) (auto split: if_splits)

lemma map_entry_twice:
  "AList.map_entry k f (AList.map_entry k g xs) = AList.map_entry k (f \<circ> g) xs"
  by (induction xs) auto

lemma map_entry_swap:
  "k \<noteq> k' \<Longrightarrow> AList.map_entry k f (AList.map_entry k' g xs)
     = AList.map_entry k' g (AList.map_entry k f xs)"
  by (induction xs) auto

lemma update_present: "k \<in> fst ` set xs \<Longrightarrow> AList.update k v xs = AList.map_entry k (\<lambda>_. v) xs"
  by (induction xs) auto

lemma map_fst_map_entry: "map fst (AList.map_entry k f xs) = map fst xs"
  by (induction xs) auto

lemma mark_idem: "mark p (mark p md) = mark p md"
proof -
  have "(\<lambda>ct. AList.map_entry (snd p) (\<lambda>_. True) (AList.map_entry (snd p) (\<lambda>_. True) ct))
        = AList.map_entry (snd p) (\<lambda>_. True)"
    by (simp add: map_entry_twice comp_def)
  then show ?thesis
    by (simp add: mark_def map_entry_twice comp_def)
qed

lemma mark_commute: "mark p (mark q md) = mark q (mark p md)"
proof (cases "fst p = fst q")
  case False
  then show ?thesis by (simp add: mark_def map_entry_swap)
next
  case True
  have inner: "AList.map_entry (snd p) (\<lambda>_. True) (AList.map_entry (snd q) (\<lambda>_. True) ct)
        = AList.map_entry (snd q) (\<lambda>_. True) (AList.map_entry (snd p) (\<lambda>_. True) ct)"
    for ct :: "(string \<times> bool) list"
    by (cases "snd p = snd q") (simp_all add: map_entry_swap)
  show ?thesis
    by (simp add: mark_def True map_entry_twice comp_def inner)
qed

lemma mark_dependency_fold:
  "mark_dependency mf t mid md = fold mark (dependency_signal mf t mid) md"
proof (cases "map_of (nodes mf) mid")
  case None
  then show ?thesis by (simp add: mark_dependency_def dependency_signal_def)
next
  case (Some mn)
  show ?thesis
  proof (cases "test_column t")
    case None
    with Some show ?thesis
      by (simp add: mark_dependency_def dependency_signal_def split: option.splits)
  next
    case (Some col)
    note col = this
    show ?thesis
    proof (cases "map_of md (name mn)")
      case None
      then have "name mn \<notin> fst ` set md" by (simp add: map_of_eq_None_iff)
      then have "mark (name mn, col) md = md" by (simp add: mark_def map_entry_absent)
      with None col \<open>map_of (nodes mf) mid = Some mn\<close> show ?thesis
        by (simp add: mark_dependency_def dependency_signal_def)
    next
      case (Some d)
      show ?thesis
      proof (cases "col \<in> fst ` set (columns_test d)")
        case True
        have "set_tested (name mn) col md = mark (name mn, col) md"
          unfolding set_tested_def mark_def fst_conv snd_conv
          by (rule map_entry_cong_first[OF Some]) (simp add: update_present True)
        with True Some col \<open>map_of (nodes mf) mid = Some mn\<close> show ?thesis
          by (simp add: mark_dependency_def dependency_signal_def)
      next
        case False
        have "mark (name mn, col) md = md"
          unfolding mark_def fst_conv snd_conv
          by (rule map_entry_fixed[OF Some]) (simp add: map_entry_absent False)
        with False Some col \<open>map_of (nodes mf) mid = Some mn\<close> show ?thesis
          by (simp add: mark_dependency_def dependency_signal_def)
      qed
    qed
  qed
qed

lemma fold_mark_dependency:
  "fold (mark_dependency mf t) mids md = fold mark (concat (map (dependency_signal mf t) mids)) md"
  by (induction mids arbitrary: md) (simp_all add: mark_dependency_fold)

lemma analyze_column_tests_fold:
  "analyze_column_tests mf md = fold mark (column_signals mf) md"
proof -
  have "fold (\<lambda>test_node md'.
             if resource_type test_node = ''test''
             then fold (mark_dependency mf test_node) (depends_on test_node) md'
             else md') ns md
      = fold mark (concat (map (\<lambda>test_node.
                    if resource_type test_node = ''test''
                    then concat (map (dependency_signal mf test_node) (depends_on test_node))
                    else []) ns)) md" for ns
    by (induction ns arbitrary: md) (simp_all add: fold_mark_dependency)
  then show ?thesis by (simp add: analyze_column_tests_def column_signals_def)
qed

lemma fold_mark_commute: "fold mark ps (mark p md) = mark p (fold mark ps md)"
proof (induction ps arbitrary: md)
  case Nil
  show ?case by simp
next
  case (Cons a ps)
  have "fold mark (a # ps) (mark p md) = fold mark ps (mark p (mark a md))"
    by (simp add: mark_commute[of a p])
  also have "\<dots> = mark p (fold mark ps (mark a md))" by (rule Cons.IH)
  finally show ?case by simp
qed

lemma fold_mark_idem: "fold mark ps (fold mark ps md) = fold mark ps md"
proof (induction ps arbitrary: md)
  case Nil
  show ?case by simp
next
  case (Cons p ps)
  have "fold mark (p # ps) (fold mark (p # ps) md)
        = fold mark ps (mark p (fold mark ps (mark p md)))" by simp
  also have "\<dots> = fold mark ps (fold mark ps (mark p (mark p md)))"
    by (simp add: fold_mark_commute)
  also have "\<dots> = fold mark ps (mark p md)"
    by (simp add: mark_idem Cons.IH)
  finally show ?case by simp
qed

section \<open>What the cross-reference pass keeps\<close>

lemma same_frame_refl: "same_frame d d"
  by (simp add: same_frame_def)

lemma same_frame_trans: "same_frame a b \<Longrightarrow> same_frame b c \<Longrightarrow> same_frame a c"
  unfolding same_frame_def
  by (metis (no_types, lifting) model_detail.surjective model_detail.update_convs(7))

lemma same_frames_refl: "same_frames md md"
  by (simp add: same_frames_def list_all2_refl same_frame_refl)

lemma same_frames_trans: "same_frames a b \<Longrightarrow> same_frames b c \<Longrightarrow> same_frames a c"
  unfolding same_frames_def
  by (rule list_all2_trans[where ?P1.0 = "\<lambda>p q. fst q = fst p \<and> same_frame (snd p) (snd q)"
        and ?P2.0 = "\<lambda>p q. fst q = fst p \<and> same_frame (snd p) (snd q)"])
    (auto intro: same_frame_trans)

lemma same_frames_map_entry:
  "(\<And>d. same_frame d (f d)) \<Longrightarrow> same_frames md (AList.map_entry k f md)"
  unfolding same_frames_def
  by (induction md) (auto simp add: same_frame_refl list_all2_refl)

lemma same_frames_mark: "same_frames md (mark p md)"
  unfolding mark_def
  by (rule same_frames_map_entry) (simp add: same_frame_def map_fst_map_entry)

lemma same_frames_fold_mark: "same_frames md (fold mark ps md)"
proof (induction ps arbitrary: md)
  case Nil
  show ?case by (simp add: same_frames_refl)
next
  case (Cons p ps)
  have "same_frames md (mark p md)" by (rule same_frames_mark)
  moreover have "same_frames (mark p md) (fold mark ps (mark p md))" by (rule Cons.IH)
  ultimately show ?case by (auto intro: same_frames_trans)
qed

lemma same_frames_keys: "same_frames md md' \<Longrightarrow> map fst md' = map fst md"
  unfolding same_frames_def by (induction rule: list_all2_induct) auto

lemma same_frames_member:
  "same_frames md md' \<Longrightarrow> (nm, d') \<in> set md' \<Longrightarrow> \<exists>d. (nm, d) \<in> set md \<and> same_frame d d'"
  unfolding same_frames_def by (induction rule: list_all2_induct) auto

lemma same_frames_map_of:
  "same_frames md md' \<Longrightarrow> rel_option same_frame (map_of md nm) (map_of md' nm)"
  unfolding same_frames_def by (induction rule: list_all2_induct) auto

lemma has_column_same_frames: "same_frames md md' \<Longrightarrow> has_column md' nm col = has_column md nm col"
  using same_frames_map_of[of md md' nm]
  by (auto simp add: has_column_def same_frame_def option.rel_sel split: option.splits
      simp flip: set_map) 

lemma is_tested_has_column: "is_tested md nm col \<Longrightarrow> has_column md nm col"
  by (auto simp add: is_tested_def has_column_def split: option.splits dest: map_of_SomeD
      intro: rev_image_eqI)

section \<open>What the cross-reference pass marks\<close>

lemma is_tested_mark_mono: "is_tested md nm col \<Longrightarrow> is_tested (mark p md) nm col"
  by (auto simp add: is_tested_def mark_def map_of_map_entry split: option.splits)

lemma is_tested_fold_mark_mono: "is_tested md nm col \<Longrightarrow> is_tested (fold mark ps md) nm col"
  by (induction ps arbitrary: md) (simp_all add: is_tested_mark_mono)

lemma map_of_map_entry_const:
  "k \<in> fst ` set xs \<Longrightarrow> map_of (AList.map_entry k (\<lambda>_. v) xs) k = Some v"
  by (induction xs) auto

lemma is_tested_mark_self: "has_column md nm col \<Longrightarrow> is_tested (mark (nm, col) md) nm col"
  by (auto simp add: is_tested_def has_column_def mark_def map_of_map_entry map_of_map_entry_const
      rev_image_eqI split: option.splits dest: weak_map_of_SomeI)

lemma is_tested_fold_mark_member:
  "(nm, col) \<in> set ps \<Longrightarrow> has_column md nm col \<Longrightarrow> is_tested (fold mark ps md) nm col"
proof (induction ps arbitrary: md)
  case Nil
  then show ?case by simp
next
  case (Cons p ps)
  show ?case
  proof (cases "p = (nm, col)")
    case True
    with Cons.prems show ?thesis
      by (simp add: is_tested_fold_mark_mono is_tested_mark_self)
  next
    case False
    with Cons.prems have "(nm, col) \<in> set ps" by simp
    moreover have "has_column (mark p md) nm col"
      using Cons.prems(2) by (simp add: has_column_same_frames[OF same_frames_mark])
    ultimately show ?thesis using Cons.IH by simp
  qed
qed

lemma column_signals_member:
  assumes "(tid, t) \<in> set (nodes mf)" and "resource_type t = ''test''"
    and "mid \<in> set (depends_on t)" and "map_of (nodes mf) mid = Some mn"
    and "test_column t = Some col"
  shows "(name mn, col) \<in> set (column_signals mf)"
proof -
  have "(name mn, col) \<in> set (dependency_signal mf t mid)"
    using assms(4,5) by (simp add: dependency_signal_def)
  with assms(1,2,3) show ?thesis
    unfolding column_signals_def by (auto simp add: rev_image_eqI intro!: bexI[of _ "(tid, t)"] bexI[of _ mid])
qed

section \<open>The coverage computation cannot fail\<close>

lemma update_coverage_total: "update_coverage d = Inr (with_coverage d)"
  by (simp add: update_coverage_def with_coverage_def py_truediv_def Let_def)

lemma calculate_coverage_stats_total:
  "calculate_coverage_stats md = Inr (AList.map_ran (\<lambda>_. with_coverage) md)"
  by (induction md rule: calculate_coverage_stats.induct) (simp_all add: update_coverage_total)

lemma map_ran_member:
  "(nm, d') \<in> set (AList.map_ran (\<lambda>_. f) md) \<Longrightarrow> \<exists>d. (nm, d) \<in> set md \<and> d' = f d"
  by (induction md) (auto, blast+)

lemma is_tested_map_ran_coverage:
  "is_tested (AList.map_ran (\<lambda>_. with_coverage) md) nm col = is_tested md nm col"
  by (simp add: is_tested_def map_ran_conv with_coverage_def split: option.splits)

lemma has_column_map_ran_coverage:
  "has_column (AList.map_ran (\<lambda>_. with_coverage) md) nm col = has_column md nm col"
  by (simp add: has_column_def map_ran_conv with_coverage_def split: option.splits)

section \<open>The entry point, by cases on the load\<close>

lemma analyze_failure:
  "load_manifest fs p = Inl e \<Longrightarrow> analyze_unit_tests_and_contracts f fs p pkg spec = Inl e"
  by (simp add: analyze_unit_tests_and_contracts_def)

lemma analyze_success:
  assumes "load_manifest fs p = Inr mf"
    and "fold (record_model mf pkg)
           (filter (\<lambda>nd. passes_filters f nd spec) (map snd (nodes mf))) initial_stats
         = (us, cs, md)"
  shows "analyze_unit_tests_and_contracts f fs p pkg spec
         = Inr (us, cs, AList.map_ran (\<lambda>_. with_coverage) (fold mark (column_signals mf) md))"
  using assms
  by (simp add: analyze_unit_tests_and_contracts_def calculate_coverage_stats_total
      analyze_column_tests_fold)

lemma analyze_cases:
  obtains (failure) e where "load_manifest fs p = Inl e"
      and "analyze_unit_tests_and_contracts f fs p pkg spec = Inl e"
  | (success) mf us cs md where "load_manifest fs p = Inr mf"
      and "fold (record_model mf pkg)
             (filter (\<lambda>nd. passes_filters f nd spec) (map snd (nodes mf))) initial_stats
           = (us, cs, md)"
      and "analyze_unit_tests_and_contracts f fs p pkg spec
           = Inr (us, cs, AList.map_ran (\<lambda>_. with_coverage) (fold mark (column_signals mf) md))"
proof (cases "load_manifest fs p")
  case (Inl e)
  then show ?thesis using failure analyze_failure by blast
next
  case (Inr mf)
  obtain us cs md where "fold (record_model mf pkg)
             (filter (\<lambda>nd. passes_filters f nd spec) (map snd (nodes mf))) initial_stats
           = (us, cs, md)"
    by (metis prod_cases3)
  with Inr show ?thesis using success analyze_success by blast
qed

section \<open>The first pass\<close>

lemma set_update_subset: "set (AList.update k v al) \<subseteq> insert (k, v) (set al)"
  by (induction al) auto

lemma record_model_skip:
  "\<not> is_package_model pkg nd \<Longrightarrow> record_model mf pkg nd acc = acc"
  by (simp add: record_model_def split: prod.splits)

lemma record_model_take:
  assumes "is_package_model pkg nd"
  obtains us' cs' where
    "record_model mf pkg nd (us, cs, md)
       = (us', cs', AList.update (name nd) (new_model_detail mf pkg nd) md)"
    and "total_models us' = total_models us + 1"
    and "with_contracts cs' + without_contracts cs' = with_contracts cs + without_contracts cs + 1"
    and "stats_contract_issues cs' = stats_contract_issues cs"
    and "with_contracts cs' = with_contracts cs + (if node_contract_enforced nd then 1 else 0)"
proof -
  have "node_contract_enforced nd \<Longrightarrow> node_contract_issues nd = []"
    by (simp add: node_contract_issues_def)
  then show ?thesis
    using assms that by (simp add: record_model_def Let_def)
qed

lemma fold_record_model_keys:
  "fold (record_model mf pkg) nds (us, cs, md) = (us', cs', md') \<Longrightarrow>
   fst ` set md' = fst ` set md \<union> name ` {nd \<in> set nds. is_package_model pkg nd}"
proof (induction nds arbitrary: us cs md)
  case Nil
  then show ?case by simp
next
  case (Cons nd nds)
  show ?case
  proof (cases "is_package_model pkg nd")
    case False
    with Cons show ?thesis by (auto simp add: record_model_skip)
  next
    case True
    then obtain us1 cs1 where
      "record_model mf pkg nd (us, cs, md)
         = (us1, cs1, AList.update (name nd) (new_model_detail mf pkg nd) md)"
      by (rule record_model_take)
    with Cons.prems have "fold (record_model mf pkg) nds
        (us1, cs1, AList.update (name nd) (new_model_detail mf pkg nd) md) = (us', cs', md')"
      by simp
    from Cons.IH[OF this] True show ?thesis by (auto simp add: dom_update)
  qed
qed

lemma fold_record_model_entries:
  "fold (record_model mf pkg) nds (us, cs, md) = (us', cs', md') \<Longrightarrow> (nm, d) \<in> set md' \<Longrightarrow>
   (nm, d) \<in> set md
   \<or> (\<exists>nd \<in> set nds. is_package_model pkg nd \<and> nm = name nd \<and> d = new_model_detail mf pkg nd)"
proof (induction nds arbitrary: us cs md)
  case Nil
  then show ?case by simp
next
  case (Cons nd nds)
  show ?case
  proof (cases "is_package_model pkg nd")
    case False
    with Cons.prems have "fold (record_model mf pkg) nds (us, cs, md) = (us', cs', md')"
      by (simp add: record_model_skip)
    from Cons.IH[OF this Cons.prems(2)] show ?thesis by auto
  next
    case True
    then obtain us1 cs1 where
      "record_model mf pkg nd (us, cs, md)
         = (us1, cs1, AList.update (name nd) (new_model_detail mf pkg nd) md)"
      by (rule record_model_take)
    with Cons.prems have "fold (record_model mf pkg) nds
        (us1, cs1, AList.update (name nd) (new_model_detail mf pkg nd) md) = (us', cs', md')"
      by simp
    from Cons.IH[OF this Cons.prems(2)] True set_update_subset[of "name nd" "new_model_detail mf pkg nd" md]
    show ?thesis by auto
  qed
qed

lemma fold_record_model_counts:
  "fold (record_model mf pkg) nds (us, cs, md) = (us', cs', md') \<Longrightarrow>
   total_models us' = total_models us + int (length (filter (is_package_model pkg) nds))
   \<and> with_contracts cs' + without_contracts cs'
       = with_contracts cs + without_contracts cs + int (length (filter (is_package_model pkg) nds))
   \<and> stats_contract_issues cs' = stats_contract_issues cs"
proof (induction nds arbitrary: us cs md)
  case Nil
  then show ?case by simp
next
  case (Cons nd nds)
  show ?case
  proof (cases "is_package_model pkg nd")
    case False
    with Cons.prems have "fold (record_model mf pkg) nds (us, cs, md) = (us', cs', md')"
      by (simp add: record_model_skip)
    from Cons.IH[OF this] False show ?thesis by simp
  next
    case True
    then obtain us1 cs1 where step:
      "record_model mf pkg nd (us, cs, md)
         = (us1, cs1, AList.update (name nd) (new_model_detail mf pkg nd) md)"
      "total_models us1 = total_models us + 1"
      "with_contracts cs1 + without_contracts cs1 = with_contracts cs + without_contracts cs + 1"
      "stats_contract_issues cs1 = stats_contract_issues cs"
      by (rule record_model_take)
    with Cons.prems have "fold (record_model mf pkg) nds
        (us1, cs1, AList.update (name nd) (new_model_detail mf pkg nd) md) = (us', cs', md')"
      by simp
    from Cons.IH[OF this] True step(2,3,4) show ?thesis by simp
  qed
qed

lemma analysis_entry_origin:
  assumes "load_manifest fs p = Inr mf"
    and "analyze_unit_tests_and_contracts fnmatch fs p pkg spec = Inr (us, cs, md)"
    and "(nm, d) \<in> set md"
  obtains nd ct where "nd \<in> snd ` set (nodes mf)" and "passes_filters fnmatch nd spec"
    and "is_package_model pkg nd" and "name nd = nm"
    and "map fst ct = map fst (untested_columns (node_columns nd))"
    and "d = with_coverage ((new_model_detail mf pkg nd)\<lparr>columns_test := ct\<rparr>)"
proof (cases rule: analyze_cases[of fs p fnmatch pkg spec])
  case (failure e)
  with assms show ?thesis by simp
next
  case (success mf' us' cs' md')
  let ?nds = "filter (\<lambda>nd. passes_filters fnmatch nd spec) (map snd (nodes mf))"
  from success(1) assms(1) have mf: "mf' = mf" by simp
  from success(3) assms(2)
  have md: "md = AList.map_ran (\<lambda>_. with_coverage) (fold mark (column_signals mf) md')"
    by (simp add: mf)
  from assms(3) obtain d2 where d2: "(nm, d2) \<in> set (fold mark (column_signals mf) md')"
    and d: "d = with_coverage d2"
    unfolding md by (blast dest: map_ran_member)
  from same_frames_member[OF same_frames_fold_mark d2]
  obtain d1 where d1: "(nm, d1) \<in> set md'" and frame: "same_frame d1 d2" by blast
  from fold_record_model_entries[OF success(2)[unfolded initial_stats_def mf] d1]
  obtain nd where nd: "nd \<in> set ?nds" "is_package_model pkg nd" "nm = name nd"
    and d1_eq: "d1 = new_model_detail mf pkg nd"
    by auto
  from frame have "d2 = d1\<lparr>columns_test := columns_test d2\<rparr>"
    unfolding same_frame_def
    by (metis (no_types, lifting) model_detail.surjective model_detail.update_convs(7))
  moreover from frame have "map fst (columns_test d2) = map fst (columns_test d1)"
    by (simp add: same_frame_def)
  ultimately have "d = with_coverage ((new_model_detail mf pkg nd)\<lparr>columns_test := columns_test d2\<rparr>)"
    and "map fst (columns_test d2) = map fst (untested_columns (node_columns nd))"
    using d d1_eq by (simp_all add: new_model_detail_def)
  with nd that show ?thesis by auto
qed

section \<open>The example run\<close>

lemmas analysis_defs =
  analyze_unit_tests_and_contracts_def load_manifest_def passes_filters_def record_model_def
  initial_stats_def is_package_model_def new_model_detail_def model_unit_tests_def
  node_contract_enforced_def node_contract_issues_def node_has_contract_def node_columns_def
  untested_columns_def analyze_column_tests_def mark_dependency_def test_column_def set_tested_def
  update_coverage_def py_truediv_def count_tested_def

lemmas jaffle_defs =
  jaffle_fs_def jaffle_manifest_def orders_node_def not_null_id_test_def no_filter_def

lemma jaffle_load: "load_manifest jaffle_fs ''target/manifest.json'' = Inr jaffle_manifest"
  by (simp add: load_manifest_def jaffle_fs_def)

lemma jaffle_analysis:
  "analyze_unit_tests_and_contracts (=) jaffle_fs ''target/manifest.json'' ''jaffle_shop'' no_filter
   = Inr (\<lparr>total_models = 1, models_with_unit_tests = 1\<rparr>,
          \<lparr>with_contracts = 0, without_contracts = 1, stats_contract_issues = []\<rparr>,
          [(''orders'', orders_detail)])"
  by (simp add: analysis_defs jaffle_defs orders_detail_def)

lemma jaffle_analysis_filtered:
  "analyze_unit_tests_and_contracts (=) jaffle_fs ''target/manifest.json'' ''jaffle_shop''
     only_orders_singular
   = Inr (\<lparr>total_models = 1, models_with_unit_tests = 1\<rparr>,
          \<lparr>with_contracts = 0, without_contracts = 1, stats_contract_issues = []\<rparr>,
          [(''orders'', orders_detail)])"
  by (simp add: analysis_defs jaffle_defs orders_detail_def only_orders_singular_def)

lemma staged_load: "load_manifest staged_fs ''target/manifest.json'' = Inr staged_manifest"
  by (simp add: load_manifest_def staged_fs_def)

lemma staged_analysis:
  "analyze_unit_tests_and_contracts (=) staged_fs ''target/manifest.json'' ''jaffle_shop'' no_filter
   = Inr (\<lparr>total_models = 1, models_with_unit_tests = 1\<rparr>,
          \<lparr>with_contracts = 0, without_contracts = 1, stats_contract_issues = []\<rparr>,
          [(''orders'', orders_detail)])"
  by (simp add: analysis_defs jaffle_defs orders_detail_def staged_fs_def staged_manifest_def
      stg_orders_node_def)

lemma jaffle_cross_reference:
  "analyze_column_tests jaffle_manifest status_known
   = [(''orders'', (snd (hd status_known))\<lparr>columns_test := [(''id'', True), (''status'', True)]\<rparr>)]"
  by (simp add: analysis_defs jaffle_defs status_known_def)

section \<open>The filter\<close>

text \<open>
  Claim C2. With a non-empty \<^verbatim>\<open>has_tags\<close>, a node passes the filter iff it passes the
  filter without the tag-inclusion rule and, when \<^verbatim>\<open>any_tag\<close> is true, its tags
  intersect \<^verbatim>\<open>has_tags\<close> (ANY), and when \<^verbatim>\<open>any_tag\<close> is false, \<^verbatim>\<open>has_tags\<close> is a subset of
  its tags (ALL). Whatever the inclusion rules say, a node that carries one of the
  \<^verbatim>\<open>exclude_tags\<close> is rejected.
\<close>

theorem passes_filters_tag_rules:
  "(has_tags spec \<noteq> [] \<longrightarrow>
      (passes_filters fnmatch nd spec \<longleftrightarrow>
         passes_filters fnmatch nd (spec\<lparr>has_tags := []\<rparr>)
         \<and> (if any_tag spec then set (has_tags spec) \<inter> set (tags nd) \<noteq> {}
            else set (has_tags spec) \<subseteq> set (tags nd))))
   \<and> (set (exclude_tags spec) \<inter> set (tags nd) \<noteq> {} \<longrightarrow> \<not> passes_filters fnmatch nd spec)"
  by (auto simp add: passes_filters_def Let_def)

theorem passes_filters_tag_rules_witness:
  "has_tags all_a_b_not_c \<noteq> []
   \<and> set (exclude_tags all_a_b_not_c) \<inter> set (tags orders_node) \<noteq> {}
   \<and> \<not> passes_filters (=) orders_node all_a_b_not_c
   \<and> has_tags all_a_b \<noteq> []
   \<and> passes_filters (=) orders_node (all_a_b\<lparr>has_tags := []\<rparr>)
   \<and> passes_filters (=) orders_node all_a_b"
  using passes_filters_tag_rules [of all_a_b_not_c "(=)" orders_node]
    passes_filters_tag_rules [of all_a_b "(=)" orders_node]
  by (simp add: all_a_b_not_c_def all_a_b_def no_filter_def orders_node_def passes_filters_def)

text \<open>
  Claim C3, as amended. The sense of \<^verbatim>\<open>any_tag\<close> is the one of its help text: when only
  the tag-inclusion rule is active, a node passes iff its tags intersect \<^verbatim>\<open>has_tags\<close>
  when \<^verbatim>\<open>any_tag\<close> is set (ANY), and iff \<^verbatim>\<open>has_tags\<close> is a subset of its tags when
  \<^verbatim>\<open>any_tag\<close> is unset (ALL).
\<close>

theorem passes_filters_any_tag_sense:
  assumes "model_names spec = []" and "model_paths spec = []" and "exclude_tags spec = []"
    and "test_type spec = ''all''" and "has_tags spec \<noteq> []"
  shows "(any_tag spec \<longrightarrow>
            (passes_filters fnmatch nd spec \<longleftrightarrow> set (has_tags spec) \<inter> set (tags nd) \<noteq> {}))
       \<and> (\<not> any_tag spec \<longrightarrow>
            (passes_filters fnmatch nd spec \<longleftrightarrow> set (has_tags spec) \<subseteq> set (tags nd)))"
  using assms by (auto simp add: passes_filters_def Let_def)

theorem passes_filters_any_tag_sense_witness:
  "any_tag any_x_a \<and> has_tags any_x_a \<noteq> [] \<and> passes_filters (=) orders_node any_x_a
   \<and> \<not> any_tag all_x_a \<and> has_tags all_x_a \<noteq> [] \<and> \<not> passes_filters (=) orders_node all_x_a"
  using passes_filters_any_tag_sense [of any_x_a "(=)" orders_node]
    passes_filters_any_tag_sense [of all_x_a "(=)" orders_node]
  by (simp add: any_x_a_def all_x_a_def no_filter_def orders_node_def)

text \<open>
  Claim C3 as stated fails: with \<^verbatim>\<open>any_tag\<close> set and \<^verbatim>\<open>has_tags = [x, a]\<close>, the node with
  tags \<^verbatim>\<open>a, b, c\<close> passes although \<^verbatim>\<open>has_tags\<close> is not a subset of its tags.
\<close>

theorem any_tag_subset_counterexample:
  "any_tag any_x_a \<and> has_tags any_x_a \<noteq> []
   \<and> \<not> (passes_filters (=) orders_node any_x_a
          \<longleftrightarrow> set (has_tags any_x_a) \<subseteq> set (tags orders_node))"
  by (simp add: any_x_a_def no_filter_def orders_node_def passes_filters_def)

section \<open>Contracts\<close>

text \<open>
  The list \<^verbatim>\<open>contract_stats["contract_issues"]\<close> is written only in the branch
  \<^verbatim>\<open>if contract_enforced:\<close>, where the issues of the node are empty; so it stays empty
  in every run.
\<close>

lemma contract_issue_records_stay_empty:
  assumes "analyze_unit_tests_and_contracts f fs p pkg spec = Inr (us, cs, md)"
  shows "stats_contract_issues cs = []"
proof (cases rule: analyze_cases[of fs p f pkg spec])
  case (failure e)
  with assms show ?thesis by simp
next
  case (success mf us' cs' md')
  from fold_record_model_counts[OF success(2)[unfolded initial_stats_def]]
  have "stats_contract_issues cs' = []" by simp
  with assms success(3) show ?thesis by simp
qed

text \<open>
  Claim C1. A processed model whose contract object has \<^verbatim>\<open>enforced = False\<close> should be
  counted under \<^verbatim>\<open>without_contracts\<close> and add one record with the issue
  \<^verbatim>\<open>"Contract not enforced"\<close> to \<^verbatim>\<open>contract_stats["contract_issues"]\<close>. On the example
  manifest the model \<^verbatim>\<open>orders\<close> is such a model: it is counted under
  \<^verbatim>\<open>without_contracts\<close> and its own detail carries the issue, but the list of
  \<^verbatim>\<open>contract_stats\<close> is empty.
\<close>

theorem unenforced_contract_issue_not_recorded:
  "contract orders_node = Some \<lparr>enforced = Some False\<rparr>
   \<and> (case analyze_unit_tests_and_contracts (=) jaffle_fs ''target/manifest.json''
              ''jaffle_shop'' no_filter of
        Inl e \<Rightarrow> False
      | Inr (us, cs, md) \<Rightarrow>
          with_contracts cs = 0 \<and> without_contracts cs = 1 \<and> stats_contract_issues cs = []
          \<and> map_option contract_issues (map_of md ''orders'') = Some [''Contract not enforced''])"
  by (simp add: jaffle_analysis orders_detail_def) (simp add: orders_node_def)

text \<open>
  Claim C10. In every returned detail \<^verbatim>\<open>has_contract\<close> equals \<^verbatim>\<open>contract_enforced\<close>. The
  detail comes from a manifest node of that name: without a contract object, and with
  one that is not enforced, \<^verbatim>\<open>has_contract\<close> is false; the issues are empty in the first
  case and \<^verbatim>\<open>["Contract not enforced"]\<close> in the second. The details built for a node
  with an unenforced contract and for the same node without a contract differ in
  \<^verbatim>\<open>contract_issues\<close> only.
\<close>

theorem has_contract_is_contract_enforced:
  assumes "load_manifest fs p = Inr mf"
    and "analyze_unit_tests_and_contracts fnmatch fs p pkg spec = Inr (us, cs, md)"
    and "(nm, d) \<in> set md"
  shows "has_contract d = contract_enforced d
       \<and> (\<exists>nd \<in> snd ` set (nodes mf).
            name nd = nm
            \<and> (contract nd = None \<longrightarrow> \<not> has_contract d \<and> contract_issues d = [])
            \<and> (\<forall>c. contract nd = Some c \<longrightarrow>
                   has_contract d = (enforced c = Some True)
                   \<and> contract_issues d
                       = (if enforced c = Some True then [] else [''Contract not enforced''])))
       \<and> (\<forall>nd c. enforced c \<noteq> Some True \<longrightarrow>
             new_model_detail mf pkg (nd\<lparr>contract := Some c\<rparr>)
             = (new_model_detail mf pkg (nd\<lparr>contract := None\<rparr>))
                 \<lparr>contract_issues := [''Contract not enforced'']\<rparr>)"
proof -
  from assms obtain nd ct where nd: "nd \<in> snd ` set (nodes mf)" "name nd = nm"
    and d: "d = with_coverage ((new_model_detail mf pkg nd)\<lparr>columns_test := ct\<rparr>)"
    by (rule analysis_entry_origin)
  have fields: "has_contract d = node_contract_enforced nd"
    "contract_enforced d = node_contract_enforced nd"
    "contract_issues d = node_contract_issues nd"
    by (simp_all add: d with_coverage_def new_model_detail_def)
  have none: "contract nd = None \<longrightarrow> \<not> has_contract d \<and> contract_issues d = []"
    by (simp add: fields node_contract_enforced_def node_contract_issues_def node_has_contract_def)
  have some: "\<forall>c. contract nd = Some c \<longrightarrow>
                   has_contract d = (enforced c = Some True)
                   \<and> contract_issues d
                       = (if enforced c = Some True then [] else [''Contract not enforced''])"
    by (auto simp add: fields node_contract_enforced_def node_contract_issues_def
        node_has_contract_def split: option.splits)
  have only_issues: "\<forall>nd c. enforced c \<noteq> Some True \<longrightarrow>
             new_model_detail mf pkg (nd\<lparr>contract := Some c\<rparr>)
             = (new_model_detail mf pkg (nd\<lparr>contract := None\<rparr>))
                 \<lparr>contract_issues := [''Contract not enforced'']\<rparr>"
    by (auto simp add: new_model_detail_def node_contract_enforced_def node_contract_issues_def
        node_has_contract_def model_unit_tests_def node_columns_def split: option.splits)
  show ?thesis
  proof (intro conjI)
    show "has_contract d = contract_enforced d" by (simp add: fields)
    show "\<exists>nd \<in> snd ` set (nodes mf).
            name nd = nm
            \<and> (contract nd = None \<longrightarrow> \<not> has_contract d \<and> contract_issues d = [])
            \<and> (\<forall>c. contract nd = Some c \<longrightarrow>
                   has_contract d = (enforced c = Some True)
                   \<and> contract_issues d
                       = (if enforced c = Some True then [] else [''Contract not enforced'']))"
      by (rule bexI[OF _ nd(1)]) (intro conjI nd(2) none some)
    show "\<forall>nd c. enforced c \<noteq> Some True \<longrightarrow>
             new_model_detail mf pkg (nd\<lparr>contract := Some c\<rparr>)
             = (new_model_detail mf pkg (nd\<lparr>contract := None\<rparr>))
                 \<lparr>contract_issues := [''Contract not enforced'']\<rparr>"
      by (rule only_issues)
  qed
qed

theorem has_contract_is_contract_enforced_witness:
  "load_manifest jaffle_fs ''target/manifest.json'' = Inr jaffle_manifest
   \<and> analyze_unit_tests_and_contracts (=) jaffle_fs ''target/manifest.json'' ''jaffle_shop'' no_filter
       = Inr (\<lparr>total_models = 1, models_with_unit_tests = 1\<rparr>,
              \<lparr>with_contracts = 0, without_contracts = 1, stats_contract_issues = []\<rparr>,
              [(''orders'', orders_detail)])
   \<and> (''orders'', orders_detail) \<in> set [(''orders'', orders_detail)]
   \<and> has_contract orders_detail = contract_enforced orders_detail
   \<and> enforced \<lparr>enforced = Some False\<rparr> \<noteq> Some True
   \<and> new_model_detail jaffle_manifest ''jaffle_shop'' (orders_node\<lparr>contract := Some \<lparr>enforced = Some False\<rparr>\<rparr>)
       = (new_model_detail jaffle_manifest ''jaffle_shop'' (orders_node\<lparr>contract := None\<rparr>))
           \<lparr>contract_issues := [''Contract not enforced'']\<rparr>"
  using has_contract_is_contract_enforced [OF jaffle_load jaffle_analysis, of "''orders''" orders_detail]
    jaffle_load jaffle_analysis
  by simp

section \<open>Which models are reported\<close>

text \<open>
  Claim C4. A name is a key of the returned \<^verbatim>\<open>model_details\<close> iff some manifest node of
  that name is a model of the target package, is not materialized as ephemeral and
  passes the filter. \<^verbatim>\<open>total_models\<close> and the sum of the two contract counters count
  exactly these nodes, and the loop body leaves all three accumulators as they are on
  an ephemeral node.
\<close>

theorem model_details_membership:
  assumes "load_manifest fs p = Inr mf"
    and "analyze_unit_tests_and_contracts fnmatch fs p pkg spec = Inr (us, cs, md)"
  shows "(nm \<in> fst ` set md \<longleftrightarrow>
            (\<exists>nd \<in> snd ` set (nodes mf).
               name nd = nm \<and> resource_type nd = ''model'' \<and> package_name nd = pkg
               \<and> materialized nd \<noteq> Some ''ephemeral'' \<and> passes_filters fnmatch nd spec))
       \<and> total_models us =
           int (length (filter (\<lambda>nd. resource_type nd = ''model'' \<and> package_name nd = pkg
                                 \<and> materialized nd \<noteq> Some ''ephemeral''
                                 \<and> passes_filters fnmatch nd spec) (map snd (nodes mf))))
       \<and> with_contracts cs + without_contracts cs = total_models us
       \<and> (\<forall>nd acc. materialized nd = Some ''ephemeral'' \<longrightarrow> record_model mf pkg nd acc = acc)"
proof (cases rule: analyze_cases[of fs p fnmatch pkg spec])
  case (failure e)
  with assms show ?thesis by simp
next
  case (success mf' us' cs' md')
  let ?nds = "filter (\<lambda>nd. passes_filters fnmatch nd spec) (map snd (nodes mf))"
  from success(1) assms(1) have mf: "mf' = mf" by simp
  from success(3) assms(2) have us: "us' = us" and cs: "cs' = cs"
    and md: "md = AList.map_ran (\<lambda>_. with_coverage) (fold mark (column_signals mf') md')"
    by simp_all
  have fp: "fold (record_model mf pkg) ?nds
      (\<lparr>total_models = 0, models_with_unit_tests = 0\<rparr>,
       \<lparr>with_contracts = 0, without_contracts = 0, stats_contract_issues = []\<rparr>, [])
      = (us, cs, md')"
    using success(2) by (simp add: mf us cs initial_stats_def)
  have "map fst md = map fst md'"
    by (simp add: md same_frames_keys[OF same_frames_fold_mark])
  then have "fst ` set md = fst ` set md'"
    by (metis list.set_map)
  also have "\<dots> = name ` {nd \<in> set ?nds. is_package_model pkg nd}"
    using fold_record_model_keys[OF fp] by simp
  finally have keys: "nm \<in> fst ` set md \<longleftrightarrow>
            (\<exists>nd \<in> snd ` set (nodes mf).
               name nd = nm \<and> resource_type nd = ''model'' \<and> package_name nd = pkg
               \<and> materialized nd \<noteq> Some ''ephemeral'' \<and> passes_filters fnmatch nd spec)"
    by (auto simp add: is_package_model_def)
  have same_filter: "filter (is_package_model pkg) ?nds
      = filter (\<lambda>nd. resource_type nd = ''model'' \<and> package_name nd = pkg
                                 \<and> materialized nd \<noteq> Some ''ephemeral''
                                 \<and> passes_filters fnmatch nd spec) (map snd (nodes mf))"
    unfolding filter_filter by (rule filter_cong) (auto simp add: is_package_model_def)
  have counts: "total_models us = int (length (filter (is_package_model pkg) ?nds))"
    "with_contracts cs + without_contracts cs = int (length (filter (is_package_model pkg) ?nds))"
    using fold_record_model_counts[OF fp] by simp_all
  have skip: "\<forall>nd acc. materialized nd = Some ''ephemeral'' \<longrightarrow> record_model mf pkg nd acc = acc"
    by (simp add: record_model_skip is_package_model_def)
  from keys counts skip show ?thesis by (simp only: same_filter)
qed

theorem model_details_membership_witness:
  "load_manifest staged_fs ''target/manifest.json'' = Inr staged_manifest
   \<and> analyze_unit_tests_and_contracts (=) staged_fs ''target/manifest.json'' ''jaffle_shop'' no_filter
       = Inr (\<lparr>total_models = 1, models_with_unit_tests = 1\<rparr>,
              \<lparr>with_contracts = 0, without_contracts = 1, stats_contract_issues = []\<rparr>,
              [(''orders'', orders_detail)])
   \<and> ''orders'' \<in> fst ` set [(''orders'', orders_detail)]
   \<and> ''stg_orders'' \<notin> fst ` set [(''orders'', orders_detail)]
   \<and> (''model.jaffle_shop.stg_orders'', stg_orders_node) \<in> set (nodes staged_manifest)
   \<and> materialized stg_orders_node = Some ''ephemeral''
   \<and> record_model staged_manifest ''jaffle_shop'' stg_orders_node initial_stats = initial_stats"
  using model_details_membership [OF staged_load staged_analysis, of "''orders''"]
    model_details_membership [OF staged_load staged_analysis, of "''stg_orders''"]
    staged_load staged_analysis
  by (simp add: initial_stats_def stg_orders_node_def staged_manifest_def)

section \<open>Coverage numbers\<close>

text \<open>
  Claim C5. \<^verbatim>\<open>_calculate_coverage_stats\<close> never fails, so no division by zero happens.
  In every returned detail \<^verbatim>\<open>tested_columns\<close> is the number of true values of
  \<^verbatim>\<open>columns_test\<close>; \<^verbatim>\<open>coverage_pct\<close> is \<^verbatim>\<open>tested_columns / total_columns * 100\<close> when
  \<^verbatim>\<open>total_columns > 0\<close> and 0 when \<^verbatim>\<open>total_columns = 0\<close>.
\<close>

theorem coverage_fields:
  "(\<exists>md'. calculate_coverage_stats md0 = Inr md')
   \<and> (analyze_unit_tests_and_contracts fnmatch fs p pkg spec = Inr (us, cs, md) \<and> (nm, d) \<in> set md
      \<longrightarrow> tested_columns d = int (length (filter snd (columns_test d)))
          \<and> (total_columns d > 0
               \<longrightarrow> coverage_pct d
                     = real_of_int (tested_columns d) / real_of_int (total_columns d) * 100)
          \<and> (total_columns d = 0 \<longrightarrow> coverage_pct d = 0))"
proof (intro conjI impI; (elim conjE)?)
  show "\<exists>md'. calculate_coverage_stats md0 = Inr md'"
    by (simp add: calculate_coverage_stats_total)
next
  assume res: "analyze_unit_tests_and_contracts fnmatch fs p pkg spec = Inr (us, cs, md)"
    and mem: "(nm, d) \<in> set md"
  have "\<exists>d0. d = with_coverage d0"
  proof (cases rule: analyze_cases[of fs p fnmatch pkg spec])
    case (failure e)
    with res show ?thesis by simp
  next
    case (success mf us' cs' md')
    with res mem show ?thesis by (auto dest: map_ran_member)
  qed
  then obtain d0 where d: "d = with_coverage d0" ..
  show "tested_columns d = int (length (filter snd (columns_test d)))"
    by (simp add: d with_coverage_def count_tested_def)
  show "coverage_pct d = real_of_int (tested_columns d) / real_of_int (total_columns d) * 100"
    if "total_columns d > 0"
    using that by (simp add: d with_coverage_def)
  show "coverage_pct d = 0" if "total_columns d = 0"
    using that by (simp add: d with_coverage_def)
qed

theorem coverage_fields_witness:
  "analyze_unit_tests_and_contracts (=) jaffle_fs ''target/manifest.json'' ''jaffle_shop'' no_filter
       = Inr (\<lparr>total_models = 1, models_with_unit_tests = 1\<rparr>,
              \<lparr>with_contracts = 0, without_contracts = 1, stats_contract_issues = []\<rparr>,
              [(''orders'', orders_detail)])
   \<and> total_columns orders_detail > 0
   \<and> tested_columns orders_detail = int (length (filter snd (columns_test orders_detail)))
   \<and> coverage_pct orders_detail
       = real_of_int (tested_columns orders_detail) / real_of_int (total_columns orders_detail) * 100"
  using coverage_fields [of "[]" "(=)" jaffle_fs "''target/manifest.json''" "''jaffle_shop''" no_filter
      "\<lparr>total_models = 1, models_with_unit_tests = 1\<rparr>"
      "\<lparr>with_contracts = 0, without_contracts = 1, stats_contract_issues = []\<rparr>"
      "[(''orders'', orders_detail)]" "''orders''" orders_detail]
    jaffle_analysis
  by (simp add: orders_detail_def)

section \<open>The cross-reference pass\<close>

text \<open>
  Claim C6. Every test node of the loaded manifest takes part in the cross-reference
  pass, whether it passes the filter or not: if one of its dependencies resolves to a
  node whose name is a key of the returned \<^verbatim>\<open>model_details\<close>, and the column the test
  points at is a key of that model's \<^verbatim>\<open>columns_test\<close>, then that column is marked in
  the result. In the example the filter rejects the test node, and its column is
  marked all the same.
\<close>

theorem every_test_node_marks_its_column:
  assumes "load_manifest fs p = Inr mf"
    and "analyze_unit_tests_and_contracts fnmatch fs p pkg spec = Inr (us, cs, md)"
    and "(tid, t) \<in> set (nodes mf)" and "resource_type t = ''test''"
    and "mid \<in> set (depends_on t)" and "map_of (nodes mf) mid = Some mn"
    and "test_column t = Some col"
    and "map_of md (name mn) = Some d" and "col \<in> fst ` set (columns_test d)"
  shows "map_of (columns_test d) col = Some True"
proof (cases rule: analyze_cases[of fs p fnmatch pkg spec])
  case (failure e)
  with assms(2) show ?thesis by simp
next
  case (success mf' us' cs' md')
  from success(1) assms(1) have mf: "mf' = mf" by simp
  from success(3) assms(2)
  have md: "md = AList.map_ran (\<lambda>_. with_coverage) (fold mark (column_signals mf) md')"
    by (simp add: mf)
  from assms(8,9) have "has_column md (name mn) col"
    by (simp add: has_column_def)
  then have "has_column md' (name mn) col"
    by (simp add: md has_column_map_ran_coverage has_column_same_frames[OF same_frames_fold_mark])
  moreover have "(name mn, col) \<in> set (column_signals mf)"
    using assms(3-7) by (rule column_signals_member)
  ultimately have "is_tested (fold mark (column_signals mf) md') (name mn) col"
    by (rule is_tested_fold_mark_member[rotated])
  then have "is_tested md (name mn) col"
    by (simp add: md is_tested_map_ran_coverage)
  with assms(8) show ?thesis by (simp add: is_tested_def)
qed

theorem every_test_node_marks_its_column_witness:
  "\<not> passes_filters (=) not_null_id_test only_orders_singular
   \<and> load_manifest jaffle_fs ''target/manifest.json'' = Inr jaffle_manifest
   \<and> analyze_unit_tests_and_contracts (=) jaffle_fs ''target/manifest.json'' ''jaffle_shop''
       only_orders_singular
       = Inr (\<lparr>total_models = 1, models_with_unit_tests = 1\<rparr>,
              \<lparr>with_contracts = 0, without_contracts = 1, stats_contract_issues = []\<rparr>,
              [(''orders'', orders_detail)])
   \<and> (''test.jaffle_shop.not_null_orders_id'', not_null_id_test) \<in> set (nodes jaffle_manifest)
   \<and> resource_type not_null_id_test = ''test''
   \<and> ''model.jaffle_shop.orders'' \<in> set (depends_on not_null_id_test)
   \<and> map_of (nodes jaffle_manifest) ''model.jaffle_shop.orders'' = Some orders_node
   \<and> test_column not_null_id_test = Some ''id''
   \<and> map_of [(''orders'', orders_detail)] (name orders_node) = Some orders_detail
   \<and> ''id'' \<in> fst ` set (columns_test orders_detail)
   \<and> map_of (columns_test orders_detail) ''id'' = Some True"
proof -
  have h3: "(''test.jaffle_shop.not_null_orders_id'', not_null_id_test) \<in> set (nodes jaffle_manifest)"
    by (simp add: jaffle_manifest_def)
  have h4: "resource_type not_null_id_test = ''test''"
    by (simp add: not_null_id_test_def)
  have h5: "''model.jaffle_shop.orders'' \<in> set (depends_on not_null_id_test)"
    by (simp add: not_null_id_test_def)
  have h6: "map_of (nodes jaffle_manifest) ''model.jaffle_shop.orders'' = Some orders_node"
    by (simp add: jaffle_manifest_def)
  have h7: "test_column not_null_id_test = Some ''id''"
    by (simp add: test_column_def not_null_id_test_def)
  have h8: "map_of [(''orders'', orders_detail)] (name orders_node) = Some orders_detail"
    by (simp add: orders_node_def)
  have h9: "''id'' \<in> fst ` set (columns_test orders_detail)"
    by (simp add: orders_detail_def)
  have rejected: "\<not> passes_filters (=) not_null_id_test only_orders_singular"
    by (simp add: passes_filters_def only_orders_singular_def no_filter_def not_null_id_test_def)
  from every_test_node_marks_its_column [OF jaffle_load jaffle_analysis_filtered h3 h4 h5 h6 h7 h8 h9]
    rejected jaffle_load jaffle_analysis_filtered h3 h4 h5 h6 h7 h8 h9
  show ?thesis by simp
qed

text \<open>
  Claim C7. Running \<^verbatim>\<open>_analyze_column_tests\<close> a second time changes nothing, and a
  column that is marked before a run is marked after it.
\<close>

theorem analyze_column_tests_idempotent_monotone:
  "analyze_column_tests mf (analyze_column_tests mf md) = analyze_column_tests mf md
   \<and> (\<forall>nm col. is_tested md nm col \<longrightarrow> is_tested (analyze_column_tests mf md) nm col)"
  by (simp add: analyze_column_tests_fold fold_mark_idem is_tested_fold_mark_mono)

theorem analyze_column_tests_idempotent_monotone_witness:
  "is_tested status_known ''orders'' ''status''
   \<and> is_tested (analyze_column_tests jaffle_manifest status_known) ''orders'' ''status''
   \<and> analyze_column_tests jaffle_manifest (analyze_column_tests jaffle_manifest status_known)
       = analyze_column_tests jaffle_manifest status_known"
  using analyze_column_tests_idempotent_monotone [of jaffle_manifest status_known]
  by (simp add: is_tested_def status_known_def)

text \<open>
  Claim C8. \<^verbatim>\<open>_analyze_column_tests\<close> keeps the keys of \<^verbatim>\<open>model_details\<close>, the keys of
  every \<^verbatim>\<open>columns_test\<close> and every other field of every detail; a column that is
  marked after the pass was a column of a model that was present before it.
\<close>

theorem analyze_column_tests_frame:
  "map fst (analyze_column_tests mf md) = map fst md
   \<and> list_all2 (\<lambda>p q. fst q = fst p
                  \<and> map fst (columns_test (snd q)) = map fst (columns_test (snd p))
                  \<and> (snd q)\<lparr>columns_test := columns_test (snd p)\<rparr> = snd p)
       md (analyze_column_tests mf md)
   \<and> (\<forall>nm col. is_tested (analyze_column_tests mf md) nm col \<longrightarrow> has_column md nm col)"
proof -
  have frames: "same_frames md (analyze_column_tests mf md)"
    by (simp add: analyze_column_tests_fold same_frames_fold_mark)
  have "is_tested (analyze_column_tests mf md) nm col \<Longrightarrow> has_column md nm col" for nm col
    using is_tested_has_column[of "analyze_column_tests mf md" nm col]
    by (simp add: has_column_same_frames[OF frames])
  with frames same_frames_keys[OF frames] show ?thesis
    by (simp add: same_frames_def same_frame_def)
qed

theorem analyze_column_tests_frame_witness:
  "is_tested (analyze_column_tests jaffle_manifest status_known) ''orders'' ''id''
   \<and> has_column status_known ''orders'' ''id''
   \<and> map fst (analyze_column_tests jaffle_manifest status_known) = [''orders'']"
  using analyze_column_tests_frame [of jaffle_manifest status_known] jaffle_cross_reference
  by (simp add: is_tested_def status_known_def)

section \<open>Load failures\<close>





end
